theory Spec2Isabelle
  imports Complex_Main
begin

section \<open>Conventions of the embedding\<close>

text \<open>
  The benchmark tool is Python. Its unbounded \<open>int\<close> values are modelled as \<open>int\<close>,
  its strings as \<open>string\<close>, its \<open>float\<close> values (latencies, durations, throughputs)
  as the reals they denote. In the aggregation stage and in the executor the rounding of
  every floating-point operation is written out. Every exception the modelled code can raise is a value of
  \<open>py_exception\<close>; a function that may raise returns \<open>py_exception + 'a\<close>, with
  \<open>Inl\<close> for the exception.
\<close>

datatype py_exception =
    RuntimeError string
  | ZeroDivisionError
  | StatisticsError
  | IndexError

text \<open>
  \<open>statistics.quantiles\<close> changed with the interpreter: before Python 3.13 a sample of a
  single point raises \<open>StatisticsError\<close>; from 3.13 on it returns that point repeated.
  The sources do not pin an interpreter, so the version is a parameter of the model.
\<close>

datatype py_version = Before_3_13 | From_3_13

text \<open>
  A Python \<open>float\<close> is a binary64 number. The model keeps it as the real number it
  denotes and rounds the exact result of every floating-point operation to the nearest
  binary64 number, ties to the even significand: \<open>binary64\<close>. The rounding is that of
  the normal range: a result of magnitude \<open>2^1024\<close> or more overflows to \<open>inf\<close> in
  the interpreter, and one below \<open>2^-1022\<close> is rounded on the fixed grid of the
  subnormal numbers; both lie outside the model.
\<close>

definition round_even :: "real \<Rightarrow> int" where
  "round_even x =
     (let f = \<lfloor>x\<rfloor>; r = x - of_int f
      in if r < 1 / 2 then f else if 1 / 2 < r then f + 1 else if even f then f else f + 1)"

definition pow2 :: "int \<Rightarrow> real" where
  "pow2 e = (if 0 \<le> e then 2 ^ nat e else 1 / 2 ^ nat (- e))"

definition binary64 :: "real \<Rightarrow> real" where
  "binary64 x =
     (if x = 0 then 0
      else (let u = pow2 (\<lfloor>log 2 \<bar>x\<bar>\<rfloor> - 52)
            in real_of_int (round_even (x / u)) * u))"

text \<open>
  Python's \<open>a / b\<close> on numbers, at least one of them a \<open>float\<close>: raises
  \<open>ZeroDivisionError\<close> when \<open>b\<close> is zero, and is the rounded quotient otherwise.
\<close>

definition py_truediv :: "real \<Rightarrow> real \<Rightarrow> py_exception + real" where
  "py_truediv a b = (if b = 0 then Inl ZeroDivisionError else Inr (binary64 (a / b)))"

text \<open>Python's \<open>int(x)\<close> on a float: truncation towards zero.\<close>

definition py_int :: "real \<Rightarrow> int" where
  "py_int x = (if 0 \<le> x then \<lfloor>x\<rfloor> else \<lceil>x\<rceil>)"

text \<open>
  Subscription \<open>xs[i]\<close> of a list: an index from \<open>0\<close> up to the length reads from the
  front, an index from \<open>-1\<close> down to minus the length reads from the back, any other
  index raises \<open>IndexError\<close>.
\<close>

definition py_index :: "'a list \<Rightarrow> int \<Rightarrow> py_exception + 'a" where
  "py_index xs i =
     (if 0 \<le> i \<and> i < int (length xs) then Inr (xs ! nat i)
      else if i < 0 \<and> - int (length xs) \<le> i then Inr (xs ! nat (int (length xs) + i))
      else Inl IndexError)"

section \<open>Data model of \<open>benchmark-etcd-cluster.py\<close>\<close>

record BenchmarkConfig =
  endpoints :: "string list"
  num_clients :: int
  duration :: int
  write_ratio :: real
  key_size :: int
  value_size :: int
  key_prefix :: string
  warmup_time :: int
  report_interval :: int

record OperationResult =
  operation :: string
  success :: bool
  latency_ms :: real
  timestamp :: real
  endpoint :: string
  error :: string

text \<open>
  The dictionaries \<open>read_latency_stats\<close> and \<open>write_latency_stats\<close> always hold the six
  keys \<open>avg\<close>, \<open>min\<close>, \<open>max\<close>, \<open>p50\<close>, \<open>p95\<close>, \<open>p99\<close>; the tuple returned by
  \<open>calc_percentiles\<close> has the same six components in the same order.
\<close>

record latency_stats =
  stat_avg :: real
  stat_min :: real
  stat_max :: real
  stat_p50 :: real
  stat_p95 :: real
  stat_p99 :: real

text \<open>
  \<open>endpoint_distribution\<close> is a dictionary in insertion order, an association list here;
  \<open>errors\<close> is \<open>list(set(errors))\<close>, whose order is arbitrary, a set here.
\<close>

record BenchmarkResults =
  total_operations :: int
  successful_operations :: int
  failed_operations :: int
  total_reads :: int
  total_writes :: int
  successful_reads :: int
  successful_writes :: int
  duration_seconds :: real
  throughput_ops_per_sec :: real
  read_throughput :: real
  write_throughput :: real
  avg_latency_ms :: real
  min_latency_ms :: real
  max_latency_ms :: real
  p50_latency_ms :: real
  p95_latency_ms :: real
  p99_latency_ms :: real
  read_latency_stats :: latency_stats
  write_latency_stats :: latency_stats
  endpoint_distribution :: "(string \<times> int) list"
  errors :: "string set"

section \<open>The \<open>statistics\<close> functions the aggregation calls\<close>

text \<open>
  \<open>statistics.mean\<close>: the sum over the count; an empty sample raises. The function adds
  the values as exact fractions and rounds once, when it converts the quotient back.
\<close>

definition mean :: "real list \<Rightarrow> py_exception + real" where
  "mean data =
     (if data = [] then Inl StatisticsError
      else Inr (binary64 (sum_list data / real (length data))))"

text \<open>
  \<open>statistics.median\<close>: the middle value of the sorted sample, the mean of the two middle
  values when the count is even, \<open>(data[i - 1] + data[i]) / 2\<close> in floating point.
\<close>

definition median :: "real list \<Rightarrow> py_exception + real" where
  "median data =
     (let srt = sort data; n = length srt
      in if n = 0 then Inl StatisticsError
         else if n mod 2 = 1 then Inr (srt ! (n div 2))
         else (let i = n div 2 in Inr (binary64 (binary64 (srt ! (i - 1) + srt ! i) / 2))))"

text \<open>
  One cut point of \<open>statistics.quantiles\<close> with the default method \<open>exclusive\<close>, on the
  sorted sample \<open>srt\<close> of at least two points:
  \<^verbatim>\<open>
  m = ld + 1
  j = i * m // n
  j = 1 if j < 1 else ld-1 if j > ld-1 else j
  delta = i*m - j*n
  interpolated = (data[j - 1] * (n - delta) + data[j] * delta) / n
  \<close>
  The indices are integer arithmetic; the last line is floating point: two products,
  their sum and the quotient, each rounded.
\<close>

definition cut_index :: "nat \<Rightarrow> nat \<Rightarrow> nat \<Rightarrow> nat" where
  "cut_index ld n i =
     (let j = i * (ld + 1) div n
      in if j < 1 then 1 else if j > ld - 1 then ld - 1 else j)"

definition cut_point :: "real list \<Rightarrow> nat \<Rightarrow> nat \<Rightarrow> real" where
  "cut_point srt n i =
     (let ld = length srt;
          j = cut_index ld n i;
          delta = int (i * (ld + 1)) - int (j * n)
      in binary64 (binary64 (binary64 (srt ! (j - 1) * real_of_int (int n - delta))
                             + binary64 (srt ! j * real_of_int delta)) / real n))"

definition quantiles :: "py_version \<Rightarrow> real list \<Rightarrow> nat \<Rightarrow> py_exception + real list" where
  "quantiles v data n =
     (if n < 1 then Inl StatisticsError
      else (let srt = sort data; ld = length srt
            in if ld < 2
               then (if ld = 1 \<and> v = From_3_13
                     then Inr (concat (replicate (n - 1) srt))
                     else Inl StatisticsError)
               else Inr (map (cut_point srt n) [1..<n])))"

text \<open>The builtins \<open>min\<close> and \<open>max\<close> on a non-empty list.\<close>

fun py_min :: "real list \<Rightarrow> real" where
  "py_min [] = 0"
| "py_min (x # xs) = fold min xs x"

fun py_max :: "real list \<Rightarrow> real" where
  "py_max [] = 0"
| "py_max (x # xs) = fold max xs x"

section \<open>The aggregation stage: \<open>EtcdBenchmark.analyze_results\<close>\<close>

text \<open>
  \<^verbatim>\<open>
  def percentile(data, p):
      if not data:
          return 0
      return statistics.quantiles(data, n=100)[int(p * 100) - 1]
  \<close>
\<close>

text \<open>The product \<open>p * 100\<close> is a floating-point product, rounded before \<open>int\<close> truncates it.\<close>

definition percentile :: "py_version \<Rightarrow> real list \<Rightarrow> real \<Rightarrow> py_exception + real" where
  "percentile v data p =
     (if data = [] then Inr 0
      else (case quantiles v data 100 of
              Inl e \<Rightarrow> Inl e
            | Inr qs \<Rightarrow> py_index qs (py_int (binary64 (p * 100)) - 1)))"

text \<open>
  The local function \<open>calc_percentiles\<close>: six zeros on an empty sample, otherwise mean,
  min, max, median and the two percentiles, evaluated in that order. The arguments
  \<open>0.95\<close> and \<open>0.99\<close> are the binary64 numbers nearest to these decimals.
\<close>

definition calc_percentiles :: "py_version \<Rightarrow> real list \<Rightarrow> py_exception + latency_stats" where
  "calc_percentiles v data =
     (if data = []
      then Inr \<lparr>stat_avg = 0, stat_min = 0, stat_max = 0,
                stat_p50 = 0, stat_p95 = 0, stat_p99 = 0\<rparr>
      else (case mean data of Inl e \<Rightarrow> Inl e | Inr a \<Rightarrow>
           (case median data of Inl e \<Rightarrow> Inl e | Inr md \<Rightarrow>
           (case percentile v data (binary64 (95 / 100)) of Inl e \<Rightarrow> Inl e | Inr q95 \<Rightarrow>
           (case percentile v data (binary64 (99 / 100)) of Inl e \<Rightarrow> Inl e | Inr q99 \<Rightarrow>
              Inr \<lparr>stat_avg = a, stat_min = py_min data, stat_max = py_max data,
                   stat_p50 = md, stat_p95 = q95, stat_p99 = q99\<rparr>)))))"

text \<open>
  The endpoint counter: \<open>endpoint_counts[result.endpoint] += 1\<close> on a
  \<open>defaultdict(int)\<close>.
\<close>

fun count_endpoint :: "string \<Rightarrow> (string \<times> int) list \<Rightarrow> (string \<times> int) list" where
  "count_endpoint e [] = [(e, 1)]"
| "count_endpoint e ((k, c) # kcs) =
     (if k = e then (k, c + 1) # kcs else (k, c) # count_endpoint e kcs)"

definition endpoint_counts :: "OperationResult list \<Rightarrow> (string \<times> int) list" where
  "endpoint_counts rs = fold (\<lambda>r acc. count_endpoint (endpoint r) acc) rs []"

text \<open>
  \<open>analyze_results\<close>. The argument \<open>clients\<close> is the list of the clients' result
  buffers, which the function first concatenates. The exceptions come in the order of
  the source: the empty check, the three calls of \<open>calc_percentiles\<close>, then the three
  unguarded divisions by \<open>actual_duration\<close> inside the constructor call.
\<close>

definition analyze_results ::
  "py_version \<Rightarrow> OperationResult list list \<Rightarrow> real \<Rightarrow> py_exception + BenchmarkResults" where
  "analyze_results v clients actual_duration =
     (let all_results = concat clients
      in if all_results = [] then Inl (RuntimeError ''No results to analyze'')
         else
          (let total_ops = int (length all_results);
               successful_ops = int (length (filter success all_results));
               failed_ops = total_ops - successful_ops;
               reads = filter (\<lambda>r. operation r = ''read'') all_results;
               writes = filter (\<lambda>r. operation r = ''write'') all_results;
               succ_reads = filter success reads;
               succ_writes = filter success writes;
               successful_latencies = map latency_ms (filter success all_results);
               read_latencies = map latency_ms succ_reads;
               write_latencies = map latency_ms succ_writes;
               errs = map error (filter (\<lambda>r. \<not> success r \<and> error r \<noteq> []) all_results)
           in (case calc_percentiles v successful_latencies of Inl e \<Rightarrow> Inl e | Inr st \<Rightarrow>
              (case calc_percentiles v read_latencies of Inl e \<Rightarrow> Inl e | Inr read_stats \<Rightarrow>
              (case calc_percentiles v write_latencies of Inl e \<Rightarrow> Inl e | Inr write_stats \<Rightarrow>
              (case py_truediv (real_of_int successful_ops) actual_duration of
                 Inl e \<Rightarrow> Inl e | Inr thr \<Rightarrow>
              (case py_truediv (real (length succ_reads)) actual_duration of
                 Inl e \<Rightarrow> Inl e | Inr rthr \<Rightarrow>
              (case py_truediv (real (length succ_writes)) actual_duration of
                 Inl e \<Rightarrow> Inl e | Inr wthr \<Rightarrow>
                 Inr \<lparr>total_operations = total_ops,
                      successful_operations = successful_ops,
                      failed_operations = failed_ops,
                      total_reads = int (length reads),
                      total_writes = int (length writes),
                      successful_reads = int (length succ_reads),
                      successful_writes = int (length succ_writes),
                      duration_seconds = actual_duration,
                      throughput_ops_per_sec = thr,
                      read_throughput = rthr,
                      write_throughput = wthr,
                      avg_latency_ms = stat_avg st,
                      min_latency_ms = stat_min st,
                      max_latency_ms = stat_max st,
                      p50_latency_ms = stat_p50 st,
                      p95_latency_ms = stat_p95 st,
                      p99_latency_ms = stat_p99 st,
                      read_latency_stats = read_stats,
                      write_latency_stats = write_stats,
                      endpoint_distribution = endpoint_counts all_results,
                      errors = set errs\<rparr>))))))))"

text \<open>
  The record that the constructor call at the end of \<open>analyze_results\<close> builds, given
  the three results of \<open>calc_percentiles\<close> and a duration that is not zero.
\<close>

definition record_of ::
  "OperationResult list \<Rightarrow> real \<Rightarrow> latency_stats \<Rightarrow> latency_stats \<Rightarrow> latency_stats
     \<Rightarrow> BenchmarkResults" where
  "record_of rs d st read_stats write_stats =
     \<lparr>total_operations = int (length rs),
      successful_operations = int (length (filter success rs)),
      failed_operations = int (length rs) - int (length (filter success rs)),
      total_reads = int (length (filter (\<lambda>r. operation r = ''read'') rs)),
      total_writes = int (length (filter (\<lambda>r. operation r = ''write'') rs)),
      successful_reads = int (length (filter success (filter (\<lambda>r. operation r = ''read'') rs))),
      successful_writes = int (length (filter success (filter (\<lambda>r. operation r = ''write'') rs))),
      duration_seconds = d,
      throughput_ops_per_sec = binary64 (real_of_int (int (length (filter success rs))) / d),
      read_throughput =
        binary64 (real (length (filter success (filter (\<lambda>r. operation r = ''read'') rs))) / d),
      write_throughput =
        binary64 (real (length (filter success (filter (\<lambda>r. operation r = ''write'') rs))) / d),
      avg_latency_ms = stat_avg st,
      min_latency_ms = stat_min st,
      max_latency_ms = stat_max st,
      p50_latency_ms = stat_p50 st,
      p95_latency_ms = stat_p95 st,
      p99_latency_ms = stat_p99 st,
      read_latency_stats = read_stats,
      write_latency_stats = write_stats,
      endpoint_distribution = endpoint_counts rs,
      errors = set (map error (filter (\<lambda>r. \<not> success r \<and> error r \<noteq> []) rs))\<rparr>"

section \<open>The executor: \<open>EtcdBenchmarkClient.perform_operation\<close>\<close>

text \<open>
  What one call of \<open>perform_operation\<close> reads from the outside world is an input of
  the model: the draws of \<open>random\<close>, the readings of the two clocks, and the behaviour of
  the store client. A call of the store client either returns, or raises an
  \<open>Exception e\<close>, recorded with its text \<open>str(e)\<close>.
\<close>

datatype call_outcome = Returned | Raised string

record 'c op_env =
  rnd_random :: real
  rnd_choice :: nat
  rnd_key_chars :: "nat \<Rightarrow> string"
  rnd_value_chars :: "nat \<Rightarrow> string"
  perf_start :: real
  perf_end :: real
  wall_clock :: real
  store_put :: "'c \<Rightarrow> string \<Rightarrow> string \<Rightarrow> call_outcome"
  store_get :: "'c \<Rightarrow> string \<Rightarrow> call_outcome"

text \<open>
  \<open>random.choices(population, k=k)\<close> returns \<open>k\<close> characters, none when \<open>k\<close> is
  negative; it does not raise.
\<close>

definition generate_random_key :: "BenchmarkConfig \<Rightarrow> 'c op_env \<Rightarrow> string" where
  "generate_random_key config env =
     key_prefix config @ ''_'' @
       rnd_key_chars env (nat (key_size config - int (length (key_prefix config)) - 1))"

definition generate_random_value :: "BenchmarkConfig \<Rightarrow> 'c op_env \<Rightarrow> string" where
  "generate_random_value config env = rnd_value_chars env (nat (value_size config))"

text \<open>The body of the \<open>try\<close> block up to the store call: a put for a write, a get for a read.\<close>

definition store_call :: "BenchmarkConfig \<Rightarrow> 'c op_env \<Rightarrow> bool \<Rightarrow> 'c \<Rightarrow> call_outcome" where
  "store_call config env is_write client =
     (if is_write
      then store_put env client (generate_random_key config env) (generate_random_value config env)
      else store_get env client (generate_random_key config env))"

text \<open>
  \<open>perform_operation\<close>. \<open>random.choice\<close> raises \<open>IndexError\<close> on an empty list, outside
  the \<open>try\<close> block. \<open>etcd_clients\<close> is the dictionary from endpoint to client, filled
  in \<open>__init__\<close> for the endpoints whose client could be created.
\<close>

definition perform_operation ::
  "BenchmarkConfig \<Rightarrow> (string \<rightharpoonup> 'c) \<Rightarrow> 'c op_env \<Rightarrow> py_exception + OperationResult" where
  "perform_operation config etcd_clients env =
     (let is_write = (rnd_random env < write_ratio config);
          op = (if is_write then ''write'' else ''read'')
      in if endpoints config = [] then Inl IndexError
         else
          (let ep = endpoints config ! (rnd_choice env mod length (endpoints config))
           in (case etcd_clients ep of
                 None \<Rightarrow>
                   Inr \<lparr>operation = op, success = False, latency_ms = 0,
                        timestamp = wall_clock env, endpoint = ep,
                        error = ''No client available for endpoint''\<rparr>
               | Some client \<Rightarrow>
                  (case store_call config env is_write client of
                     Returned \<Rightarrow>
                       Inr \<lparr>operation = op, success = True,
                            latency_ms = binary64 (binary64 (perf_end env - perf_start env) * 1000),
                            timestamp = wall_clock env, endpoint = ep, error = ''''\<rparr>
                   | Raised msg \<Rightarrow>
                       Inr \<lparr>operation = op, success = False,
                            latency_ms = binary64 (binary64 (perf_end env - perf_start env) * 1000),
                            timestamp = wall_clock env, endpoint = ep, error = msg\<rparr>))))"

section \<open>The scalability fit: \<open>usl_analysis.py\<close>\<close>

text \<open>
  A \<open>numpy\<close> float is a finite value, an exact real here, or one of \<open>inf\<close>, \<open>-inf\<close>,
  \<open>nan\<close>, which \<open>numpy\<close> produces with a warning and without an exception. The three are
  one value \<open>NonFinite\<close>: sums, differences and products with a non-finite operand are
  non-finite, and the fit divides only by finite values or by \<open>ss_tot\<close>, which is
  \<open>nan\<close> whenever a normalized sample is not finite.
\<close>

datatype np_float = Finite real | NonFinite

definition np_divide :: "real \<Rightarrow> real \<Rightarrow> np_float" where
  "np_divide x y = (if y = 0 then NonFinite else Finite (x / y))"

fun np_add :: "np_float \<Rightarrow> np_float \<Rightarrow> np_float" where
  "np_add (Finite x) (Finite y) = Finite (x + y)"
| "np_add _ _ = NonFinite"

fun np_sub :: "np_float \<Rightarrow> np_float \<Rightarrow> np_float" where
  "np_sub (Finite x) (Finite y) = Finite (x - y)"
| "np_sub _ _ = NonFinite"

fun np_square :: "np_float \<Rightarrow> np_float" where
  "np_square (Finite x) = Finite (x * x)"
| "np_square NonFinite = NonFinite"

fun np_div :: "np_float \<Rightarrow> np_float \<Rightarrow> np_float" where
  "np_div (Finite x) (Finite y) = np_divide x y"
| "np_div _ _ = NonFinite"

fun np_sqrt :: "np_float \<Rightarrow> np_float" where
  "np_sqrt (Finite x) = (if x < 0 then NonFinite else Finite (sqrt x))"
| "np_sqrt NonFinite = NonFinite"

definition np_sum :: "np_float list \<Rightarrow> np_float" where
  "np_sum xs = fold (\<lambda>x acc. np_add acc x) xs (Finite 0)"

definition np_mean :: "np_float list \<Rightarrow> np_float" where
  "np_mean xs = np_div (np_sum xs) (Finite (real (length xs)))"

text \<open>\<open>usl_function\<close>: \<open>N / (1 + alpha * (N - 1) + beta * N * (N - 1))\<close>.\<close>

definition usl_function :: "real \<Rightarrow> real \<Rightarrow> real \<Rightarrow> np_float" where
  "usl_function N a b = np_divide N (1 + a * (N - 1) + b * N * (N - 1))"

text \<open>
  \<open>scipy.optimize.curve_fit\<close> is outside the repository. It is a parameter of the model:
  a function of the bounds (the pair of the lower and the upper bounds of the two
  parameters), the node counts and the normalized samples, that either raises, or
  returns the fitted pair \<open>popt\<close> and the diagonal of the covariance \<open>pcov\<close>. The
  iteration budget \<open>maxfev\<close> is part of that function.
\<close>

datatype fit_outcome =
    Fit_raised
  | Fit_returned "real \<times> real" "np_float \<times> np_float"

type_synonym bounds = "(real \<times> real) \<times> (real \<times> real)"

type_synonym optimizer = "bounds \<Rightarrow> int list \<Rightarrow> np_float list \<Rightarrow> fit_outcome"

text \<open>
  Modelled from the documentation of \<open>scipy.optimize.curve_fit\<close>, which is not part of
  the repository: \<open>bounds\<close> are the lower and upper bounds on the parameters, and the
  parameters it returns lie within them.
\<close>

definition within_bounds :: "bounds \<Rightarrow> real \<times> real \<Rightarrow> bool" where
  "within_bounds bnds popt \<longleftrightarrow>
     fst (fst bnds) \<le> fst popt \<and> fst popt \<le> fst (snd bnds) \<and>
     snd (fst bnds) \<le> snd popt \<and> snd popt \<le> snd (snd bnds)"

definition honours_bounds :: "optimizer \<Rightarrow> bool" where
  "honours_bounds curve_fit \<longleftrightarrow>
     (\<forall>bnds nodes ys popt pcov.
        curve_fit bnds nodes ys = Fit_returned popt pcov \<longrightarrow> within_bounds bnds popt)"

record usl_fit =
  alpha :: real
  beta :: real
  alpha_err :: np_float
  beta_err :: np_float
  r_squared :: np_float
  normalized_throughput :: "np_float list"

text \<open>
  The first statement of \<open>fit_usl_model\<close>:
  \<^verbatim>\<open>normalized_throughput = np.array(throughput) / throughput[0]\<close>.
  \<open>throughput[0]\<close> raises \<open>IndexError\<close> on an empty list.
\<close>

definition normalize :: "real list \<Rightarrow> py_exception + np_float list" where
  "normalize throughput =
     (case throughput of
        [] \<Rightarrow> Inl IndexError
      | t0 # _ \<Rightarrow> Inr (map (\<lambda>t. np_divide t t0) throughput))"

text \<open>
  \<open>fit_usl_model\<close>. The normalization is outside the \<open>try\<close> block; any exception inside
  it gives the tuple of six \<open>None\<close>, which is \<open>None\<close> here. The call passes
  \<open>bounds=([0, 0], [1, 1])\<close> and the pair \<open>popt\<close> is returned as it comes back. After \<open>curve_fit\<close> has
  returned, the remaining statements are \<open>numpy\<close> arithmetic and do not raise. The two
  lists have one entry per node count at the only call site; broadcasting of lists of
  different lengths is not modelled.
\<close>

definition fit_usl_model ::
  "optimizer \<Rightarrow> int list \<Rightarrow> real list \<Rightarrow> py_exception + usl_fit option" where
  "fit_usl_model curve_fit nodes throughput =
     (case normalize throughput of
        Inl e \<Rightarrow> Inl e
      | Inr normalized \<Rightarrow>
         (case curve_fit ((0, 0), (1, 1)) nodes normalized of
            Fit_raised \<Rightarrow> Inr None
          | Fit_returned popt pcov_diag \<Rightarrow>
             (let a = fst popt; b = snd popt;
                  y_pred = map (\<lambda>N. usl_function (real_of_int N) a b) nodes;
                  ss_res = np_sum (map (\<lambda>(y, p). np_square (np_sub y p)) (zip normalized y_pred));
                  ss_tot = np_sum (map (\<lambda>y. np_square (np_sub y (np_mean normalized))) normalized)
              in Inr (Some \<lparr>alpha = a, beta = b,
                            alpha_err = np_sqrt (fst pcov_diag),
                            beta_err = np_sqrt (snd pcov_diag),
                            r_squared = np_sub (Finite 1) (np_div ss_res ss_tot),
                            normalized_throughput = normalized\<rparr>))))"

text \<open>
  The data extraction of \<open>create_usl_analysis_plots\<close> for one workload. The dataset is
  the dictionary from node count to throughput, as the list of its items (distinct
  keys): \<open>nodes = sorted(results.keys())\<close>, and \<open>throughput\<close> lists the samples in that
  order.
\<close>

definition usl_nodes :: "(int \<times> real) list \<Rightarrow> int list" where
  "usl_nodes results = sort (map fst results)"

definition usl_throughput :: "(int \<times> real) list \<Rightarrow> real list" where
  "usl_throughput results = List.map_filter (map_of results) (usl_nodes results)"

definition analyze_workload ::
  "optimizer \<Rightarrow> (int \<times> real) list \<Rightarrow> py_exception + usl_fit option" where
  "analyze_workload curve_fit results =
     fit_usl_model curve_fit (usl_nodes results) (usl_throughput results)"

section \<open>The mixed workload of \<open>benchmark.py\<close>\<close>

text \<open>
  The read/write selection inside the loop of \<open>benchmark_mixed_workload\<close>, with both
  branches as the source has them:
  \<^verbatim>\<open>
  if (operation_count % 100) == 0:
      should_read = (operation_count % 10) < (read_ratio * 10)
  else:
      should_read = (operation_count % 10) < (read_ratio * 10)
  \<close>
\<close>

definition should_read :: "int \<Rightarrow> real \<Rightarrow> bool" where
  "should_read operation_count read_ratio =
     (if operation_count mod 100 = 0
      then real_of_int (operation_count mod 10) < read_ratio * 10
      else real_of_int (operation_count mod 10) < read_ratio * 10)"

text \<open>The single rule, as the specification words it.\<close>

definition should_read_single_rule :: "int \<Rightarrow> real \<Rightarrow> bool" where
  "should_read_single_rule operation_count read_ratio =
     (real_of_int (operation_count mod 10) < read_ratio * 10)"

section \<open>The percentile rule of the specification\<close>

text \<open>
  The specification's rule, in its own words: sort the sample and, for percentile \<open>p\<close>,
  pick \<open>sorted[ceil(p * n) - 1]\<close>. It is stated here to be compared with what
  \<open>calc_percentiles\<close> computes.
\<close>

definition nearest_rank :: "real list \<Rightarrow> real \<Rightarrow> real" where
  "nearest_rank data p = sort data ! (nat \<lceil>p * real (length data)\<rceil> - 1)"

section \<open>Theorems\<close>

text \<open>
  C10. In the mixed-workload selection both branches of the test on
  \<open>operation_count % 100\<close> compute the same condition: for every operation count and
  every read ratio the operation is a read iff \<open>operation_count % 10 < read_ratio * 10\<close>.
\<close>

theorem should_read_is_single_rule:
  "should_read operation_count read_ratio = should_read_single_rule operation_count read_ratio"
  by (simp add: should_read_def should_read_single_rule_def)

subsection \<open>Rounding to binary64\<close>

lemma pow2_powr: "pow2 e = 2 powr (real_of_int e)"
proof (cases "0 \<le> e")
  case True
  then show ?thesis by (simp add: pow2_def powr_real_of_int)
next
  case False
  then show ?thesis by (simp add: pow2_def powr_real_of_int field_simps)
qed

lemma pow2_pos: "0 < pow2 e"
  by (simp add: pow2_powr)

text \<open>The rounding of a value whose binary exponent \<open>e\<close> is known.\<close>

lemma binary64_eval:
  assumes "pow2 e \<le> \<bar>x\<bar>" and "\<bar>x\<bar> < pow2 (e + 1)"
  shows "binary64 x = real_of_int (round_even (x / pow2 (e - 52))) * pow2 (e - 52)"
proof -
  have pos: "0 < \<bar>x\<bar>" using assms(1) pow2_pos [of e] by linarith
  have "\<lfloor>log 2 \<bar>x\<bar>\<rfloor> = e"
    using assms pos by (simp add: floor_log_eq_powr_iff pow2_powr)
  then show ?thesis using pos by (simp add: binary64_def Let_def)
qed

lemma round_even_of_int: "round_even (real_of_int k) = k"
  by (simp add: round_even_def)

text \<open>An integer below \<open>2^53\<close> in magnitude is a binary64 number.\<close>

lemma binary64_of_int:
  assumes "\<bar>m\<bar> < 2 ^ 53"
  shows "binary64 (real_of_int m) = real_of_int m"
proof (cases "m = 0")
  case True
  then show ?thesis by (simp add: binary64_def)
next
  case False
  define e where "e = \<lfloor>log 2 \<bar>real_of_int m\<bar>\<rfloor>"
  have m1: "1 \<le> \<bar>real_of_int m\<bar>" using False by (simp flip: of_int_abs)
  have m2: "\<bar>real_of_int m\<bar> < 2 ^ 53"
    using assms by (metis of_int_abs of_int_less_iff of_int_numeral of_int_power)
  have "0 \<le> log 2 \<bar>real_of_int m\<bar>" using m1 by simp
  then have e0: "0 \<le> e" by (simp add: e_def)
  have "log 2 \<bar>real_of_int m\<bar> < 53"
    using m1 m2 by (simp add: log_less_iff)
  then have e52: "e \<le> 52" unfolding e_def by linarith
  define k where "k = nat (52 - e)"
  have u: "pow2 (e - 52) = 1 / 2 ^ k"
    using e52 by (auto simp: pow2_def k_def)
  have "real_of_int m / pow2 (e - 52) = real_of_int (m * 2 ^ k)"
    by (simp add: u)
  then have "round_even (real_of_int m / pow2 (e - 52)) = m * 2 ^ k"
    by (simp only: round_even_of_int)
  then show ?thesis
    using False by (simp add: binary64_def Let_def e_def [symmetric] u)
qed

lemma binary64_numeral:
  "numeral w < (2 ^ 53 :: int) \<Longrightarrow> binary64 (numeral w) = numeral w"
  "numeral w < (2 ^ 53 :: int) \<Longrightarrow> binary64 (- numeral w) = - numeral w"
  using binary64_of_int [of "numeral w"] binary64_of_int [of "- numeral w"] by simp_all

lemma binary64_half: "binary64 (1 / 2) = 1 / 2"
  by (subst binary64_eval [where e = "-1"]) (simp_all add: pow2_def round_even_def)

text \<open>
  The literals \<open>0.95\<close> and \<open>0.99\<close> as binary64 numbers, and their products with
  \<open>100\<close>, which round to \<open>95\<close> and \<open>99\<close>.
\<close>

lemma binary64_95: "binary64 (95 / 100) = 4278419646001971 / 2 ^ 52"
  by (subst binary64_eval [where e = "-1"]) (simp_all add: pow2_def round_even_def)

lemma binary64_99: "binary64 (99 / 100) = 4458563631096791 / 2 ^ 52"
  by (subst binary64_eval [where e = "-1"]) (simp_all add: pow2_def round_even_def)

lemma binary64_95_times_100: "binary64 (4278419646001971 / 2 ^ 52 * 100) = 95"
  by (subst binary64_eval [where e = 6]) (simp_all add: pow2_def round_even_def)

lemma binary64_99_times_100: "binary64 (4458563631096791 / 2 ^ 52 * 100) = 99"
  by (subst binary64_eval [where e = 6]) (simp_all add: pow2_def round_even_def)

lemma percentile_index:
  "py_int (binary64 (binary64 (95 / 100) * 100)) - 1 = 94"
  "py_int (binary64 (binary64 (99 / 100) * 100)) - 1 = 98"
  by (simp_all only: binary64_95 binary64_99 binary64_95_times_100 binary64_99_times_100)
     (simp_all add: py_int_def)

subsection \<open>The statistics of a sample\<close>

lemma sort_nonempty: "2 \<le> length data \<Longrightarrow> sort data \<noteq> []"
  by (metis length_sort list.size(3) not_numeral_le_zero)

lemma percentile_many:
  assumes "2 \<le> length data"
  shows "percentile v data (binary64 (95 / 100)) = Inr (cut_point (sort data) 100 95)"
    and "percentile v data (binary64 (99 / 100)) = Inr (cut_point (sort data) 100 99)"
  using assms unfolding percentile_def percentile_index
  by (auto simp: quantiles_def Let_def py_index_def nth_append)

lemma median_middle:
  assumes "data \<noteq> []"
  shows "median data =
           Inr (if odd (length data) then sort data ! (length data div 2)
                else binary64 (binary64 (sort data ! (length data div 2 - 1)
                                          + sort data ! (length data div 2)) / 2))"
proof -
  have "sort data \<noteq> []" using assms by (metis length_sort length_0_conv)
  then show ?thesis by (simp add: median_def Let_def odd_iff_mod_2_eq_one)
qed

lemma calc_percentiles_many:
  assumes "2 \<le> length data"
  shows "calc_percentiles v data =
           Inr \<lparr>stat_avg = binary64 (sum_list data / real (length data)),
                stat_min = py_min data, stat_max = py_max data,
                stat_p50 =
                  (if odd (length data) then sort data ! (length data div 2)
                   else binary64 (binary64 (sort data ! (length data div 2 - 1)
                                             + sort data ! (length data div 2)) / 2)),
                stat_p95 = cut_point (sort data) 100 95,
                stat_p99 = cut_point (sort data) 100 99\<rparr>"
proof -
  have ne: "data \<noteq> []" using assms by auto
  show ?thesis
    unfolding calc_percentiles_def
    by (simp only: ne if_False percentile_many [OF assms] median_middle [OF ne] mean_def sum.case)
qed

lemma concat_replicate_single: "concat (replicate k [x]) = replicate k x"
  by (induction k) simp_all

lemma percentile_single_new:
  "percentile From_3_13 [x] (binary64 (95 / 100)) = Inr x"
  "percentile From_3_13 [x] (binary64 (99 / 100)) = Inr x"
  unfolding percentile_def percentile_index
  by (simp_all add: quantiles_def concat_replicate_single py_index_def)

lemma calc_percentiles_single_new:
  "calc_percentiles From_3_13 [x] =
     Inr \<lparr>stat_avg = binary64 x, stat_min = x, stat_max = x,
          stat_p50 = x, stat_p95 = x, stat_p99 = x\<rparr>"
  unfolding calc_percentiles_def percentile_single_new
  by (simp add: mean_def median_def)

lemma calc_percentiles_single_old:
  "calc_percentiles Before_3_13 [x] = Inl StatisticsError"
  by (simp add: calc_percentiles_def mean_def median_def percentile_def quantiles_def)

lemma calc_percentiles_empty:
  "calc_percentiles v [] =
     Inr \<lparr>stat_avg = 0, stat_min = 0, stat_max = 0, stat_p50 = 0, stat_p95 = 0, stat_p99 = 0\<rparr>"
  by (simp add: calc_percentiles_def)

lemma length_one_or_many:
  assumes "data \<noteq> []"
  obtains x where "data = [x]" | "2 \<le> length data"
  using assms by (cases data; cases "tl data") auto

text \<open>The statistics of three values given in ascending order.\<close>

lemma calc_percentiles_sorted3:
  assumes "x \<le> y" and "y \<le> z"
  shows "calc_percentiles v [x, y, z] =
           Inr \<lparr>stat_avg = binary64 ((x + y + z) / 3), stat_min = x, stat_max = z,
                stat_p50 = y,
                stat_p95 = binary64 (binary64 (binary64 (y * (- 80)) + binary64 (z * 180)) / 100),
                stat_p99 = binary64 (binary64 (binary64 (y * (- 96)) + binary64 (z * 196)) / 100)\<rparr>"
proof -
  have s: "sort [x, y, z] = [x, y, z]" using assms by simp
  have c95: "cut_point [x, y, z] 100 95 =
               binary64 (binary64 (binary64 (y * (- 80)) + binary64 (z * 180)) / 100)"
    by (simp add: cut_point_def cut_index_def Let_def)
  have c99: "cut_point [x, y, z] 100 99 =
               binary64 (binary64 (binary64 (y * (- 96)) + binary64 (z * 196)) / 100)"
    by (simp add: cut_point_def cut_index_def Let_def)
  have m: "py_min [x, y, z] = x" "py_max [x, y, z] = z" using assms by simp_all
  have l: "2 \<le> length [x, y, z]" by simp
  show ?thesis
    unfolding calc_percentiles_many [OF l] s
    using m c95 c99 by (simp add: add.assoc)
qed

text \<open>The binary64 numbers that print as \<open>3.8\<close> and \<open>3.96\<close>.\<close>

lemma binary64_19_5: "binary64 (19 / 5) = 4278419646001971 / 2 ^ 50"
  by (subst binary64_eval [where e = 1]) (simp_all add: pow2_def round_even_def)

lemma binary64_99_25: "binary64 (99 / 25) = 4458563631096791 / 2 ^ 50"
  by (subst binary64_eval [where e = 1]) (simp_all add: pow2_def round_even_def)

text \<open>
  C1, as stated, fails: on the sample \<open>1, 2, 3\<close> the aggregation reports the binary64
  numbers that print as \<open>3.8\<close> for p95 and \<open>3.96\<close> for p99, where the nearest-rank rule
  picks the value \<open>3\<close>.
\<close>

theorem nearest_rank_counterexample:
  "calc_percentiles Before_3_13 [1, 2, 3] =
       Inr \<lparr>stat_avg = 2, stat_min = 1, stat_max = 3, stat_p50 = 2,
            stat_p95 = 4278419646001971 / 2 ^ 50,
            stat_p99 = 4458563631096791 / 2 ^ 50\<rparr>
   \<and> nearest_rank [1, 2, 3] (95 / 100) = 3
   \<and> nearest_rank [1, 2, 3] (99 / 100) = 3"
  by (simp add: calc_percentiles_sorted3 binary64_numeral binary64_19_5 binary64_99_25
      nearest_rank_def)

text \<open>
  The interpolation on two equal values \<open>a\<close>, at the binary64 number \<open>a\<close> that prints
  as \<open>1.78\<close>: the two products are rounded, their sum is rounded below \<open>178\<close>, and
  the quotient is the binary64 number below \<open>a\<close>, which prints as
  \<open>1.7799999999999998\<close>.
\<close>

lemma tied_interpolation:
  "binary64 (binary64 (binary64 (8016407336719483 / 2 ^ 52 * (- 80))
                        + binary64 (8016407336719483 / 2 ^ 52 * 180)) / 100)
     = 4008203668359741 / 2 ^ 51"
proof -
  have l1: "binary64 (8016407336719483 / 2 ^ 52 * (- 80)) = - (5010254585449677 / 2 ^ 45)"
    by (subst binary64_eval [where e = 7]) (simp_all add: pow2_def round_even_def)
  have l2: "binary64 (8016407336719483 / 2 ^ 52 * 180) = 2818268204315443 / 2 ^ 43"
    by (subst binary64_eval [where e = 8]) (simp_all add: pow2_def round_even_def)
  have l3: "binary64 (- (5010254585449677 / 2 ^ 45) + 2818268204315443 / 2 ^ 43)
              = 6262818231812095 / 2 ^ 45"
    by (subst binary64_eval [where e = 7]) (simp_all add: pow2_def round_even_def)
  have l4: "binary64 (6262818231812095 / 2 ^ 45 / 100) = 4008203668359741 / 2 ^ 51"
    by (subst binary64_eval [where e = 0]) (simp_all add: pow2_def round_even_def)
  show ?thesis by (simp only: l1 l2 l3 l4)
qed

text \<open>
  C5. The ordering fails in the code. On the latencies that print as \<open>0.49\<close>, \<open>1.78\<close>,
  \<open>1.78\<close> the aggregation reports p50 as \<open>1.78\<close>, the middle value itself, and p95
  as \<open>1.7799999999999998\<close>, the rounded interpolation of the two equal largest values:
  p95 is below p50.
\<close>

theorem percentiles_out_of_order:
  "map_sum id stat_p50
     (calc_percentiles v
        [2206763817411543 / 2 ^ 52, 8016407336719483 / 2 ^ 52, 8016407336719483 / 2 ^ 52])
     = Inr (8016407336719483 / 2 ^ 52)
   \<and> map_sum id stat_p95
     (calc_percentiles v
        [2206763817411543 / 2 ^ 52, 8016407336719483 / 2 ^ 52, 8016407336719483 / 2 ^ 52])
     = Inr (4008203668359741 / 2 ^ 51)
   \<and> (4008203668359741 / 2 ^ 51 :: real) < 8016407336719483 / 2 ^ 52"
proof -
  have le: "(2206763817411543 / 2 ^ 52 :: real) \<le> 8016407336719483 / 2 ^ 52" by simp
  note cp = calc_percentiles_sorted3 [OF le order_refl, of v]
  show ?thesis
  proof (intro conjI)
    show "map_sum id stat_p50
       (calc_percentiles v
          [2206763817411543 / 2 ^ 52, 8016407336719483 / 2 ^ 52, 8016407336719483 / 2 ^ 52])
       = Inr (8016407336719483 / 2 ^ 52)"
      unfolding cp by (simp only: map_sum.simps latency_stats.simps)
    show "map_sum id stat_p95
       (calc_percentiles v
          [2206763817411543 / 2 ^ 52, 8016407336719483 / 2 ^ 52, 8016407336719483 / 2 ^ 52])
       = Inr (4008203668359741 / 2 ^ 51)"
      unfolding cp by (simp only: map_sum.simps latency_stats.simps tied_interpolation)
    show "(4008203668359741 / 2 ^ 51 :: real) < 8016407336719483 / 2 ^ 52" by simp
  qed
qed

lemma calc_percentiles_raises:
  "calc_percentiles v data = Inl e \<longleftrightarrow> e = StatisticsError \<and> v = Before_3_13 \<and> length data = 1"
proof (cases "data = []")
  case True
  then show ?thesis by (simp add: calc_percentiles_empty)
next
  case False
  then show ?thesis
  proof (rule length_one_or_many)
    fix x assume "data = [x]"
    then show ?thesis
      by (cases v) (auto simp: calc_percentiles_single_new calc_percentiles_single_old)
  next
    assume "2 \<le> length data"
    then show ?thesis by (simp add: calc_percentiles_many)
  qed
qed

lemma calc_percentiles_returns:
  "(\<exists>s. calc_percentiles v data = Inr s) \<longleftrightarrow> v = From_3_13 \<or> length data \<noteq> 1"
proof -
  have "(\<exists>s. calc_percentiles v data = Inr s) \<longleftrightarrow> \<not> (\<exists>e. calc_percentiles v data = Inl e)"
    by (cases "calc_percentiles v data") auto
  then show ?thesis
    unfolding calc_percentiles_raises by (cases v) auto
qed

lemma sum_count_endpoint:
  "sum_list (map snd (count_endpoint e kcs)) = sum_list (map snd kcs) + 1"
  by (induction kcs) auto

lemma sum_fold_count_endpoint:
  "sum_list (map snd (fold (\<lambda>r acc. count_endpoint (endpoint r) acc) rs acc))
     = sum_list (map snd acc) + int (length rs)"
  by (induction rs arbitrary: acc) (simp_all add: sum_count_endpoint)

lemma endpoint_counts_sum: "sum_list (map snd (endpoint_counts rs)) = int (length rs)"
  by (simp add: endpoint_counts_def sum_fold_count_endpoint)

text \<open>
  C7. For every merged result set accepted by the aggregation, the produced record
  satisfies \<open>successful_operations + failed_operations = total_operations\<close>, and the
  counts of the endpoint distribution add up to \<open>total_operations\<close>.
\<close>

theorem counts_consistent:
  assumes "analyze_results v clients actual_duration = Inr r"
  shows "successful_operations r + failed_operations r = total_operations r
       \<and> sum_list (map snd (endpoint_distribution r)) = total_operations r"
  using assms
  by (auto simp: analyze_results_def Let_def endpoint_counts_sum split: if_splits sum.splits)

subsection \<open>The outcomes of the aggregation\<close>

lemma analyze_results_eval:
  "analyze_results v clients d =
     (if concat clients = [] then Inl (RuntimeError ''No results to analyze'')
      else (case calc_percentiles v (map latency_ms (filter success (concat clients))) of
              Inl e \<Rightarrow> Inl e | Inr st \<Rightarrow>
           (case calc_percentiles v (map latency_ms
                   (filter success (filter (\<lambda>r. operation r = ''read'') (concat clients)))) of
              Inl e \<Rightarrow> Inl e | Inr read_stats \<Rightarrow>
           (case calc_percentiles v (map latency_ms
                   (filter success (filter (\<lambda>r. operation r = ''write'') (concat clients)))) of
              Inl e \<Rightarrow> Inl e | Inr write_stats \<Rightarrow>
           (if d = 0 then Inl ZeroDivisionError
            else Inr (record_of (concat clients) d st read_stats write_stats))))))"
  unfolding analyze_results_def Let_def py_truediv_def record_of_def
  by (simp split: sum.split del: filter_filter)

lemma analyze_results_InrD:
  assumes "analyze_results v clients d = Inr r"
  obtains st read_stats write_stats where
    "concat clients \<noteq> []" and "d \<noteq> 0"
    and "calc_percentiles v (map latency_ms (filter success (concat clients))) = Inr st"
    and "r = record_of (concat clients) d st read_stats write_stats"
  using assms unfolding analyze_results_eval
  by (auto split: if_splits sum.splits)

lemma analyze_results_runtime_error:
  "(\<exists>m. analyze_results v clients d = Inl (RuntimeError m)) \<longleftrightarrow> concat clients = []"
  unfolding analyze_results_eval
  by (auto simp: calc_percentiles_raises split: sum.splits)

lemma analyze_results_returns:
  assumes "concat clients \<noteq> []" and "d \<noteq> 0"
    and "v = From_3_13 \<or>
         (length (filter success (concat clients)) \<noteq> 1
          \<and> length (filter success (filter (\<lambda>r. operation r = ''read'') (concat clients))) \<noteq> 1
          \<and> length (filter success (filter (\<lambda>r. operation r = ''write'') (concat clients))) \<noteq> 1)"
  shows "\<exists>r. analyze_results v clients d = Inr r"
proof -
  obtain s1 where s1: "calc_percentiles v (map latency_ms (filter success (concat clients))) = Inr s1"
    using assms(3) calc_percentiles_returns [of v "map latency_ms (filter success (concat clients))"]
    by auto
  obtain s2 where s2: "calc_percentiles v (map latency_ms
      (filter success (filter (\<lambda>r. operation r = ''read'') (concat clients)))) = Inr s2"
    using assms(3) calc_percentiles_returns [of v "map latency_ms
      (filter success (filter (\<lambda>r. operation r = ''read'') (concat clients)))"]
    by auto
  obtain s3 where s3: "calc_percentiles v (map latency_ms
      (filter success (filter (\<lambda>r. operation r = ''write'') (concat clients)))) = Inr s3"
    using assms(3) calc_percentiles_returns [of v "map latency_ms
      (filter success (filter (\<lambda>r. operation r = ''write'') (concat clients)))"]
    by auto
  show ?thesis
    unfolding analyze_results_eval by (simp only: assms(1,2) s1 s2 s3 if_False sum.case) blast
qed

lemma filter_none: "\<forall>x\<in>set xs. \<not> P x \<Longrightarrow> filter P xs = []"
  by (induction xs) auto

lemma analyze_results_all_failed:
  assumes "concat clients \<noteq> []" and "d \<noteq> 0" and "\<forall>x\<in>set (concat clients). \<not> success x"
  shows "analyze_results v clients d =
           Inr (record_of (concat clients) d
             \<lparr>stat_avg = 0, stat_min = 0, stat_max = 0, stat_p50 = 0, stat_p95 = 0, stat_p99 = 0\<rparr>
             \<lparr>stat_avg = 0, stat_min = 0, stat_max = 0, stat_p50 = 0, stat_p95 = 0, stat_p99 = 0\<rparr>
             \<lparr>stat_avg = 0, stat_min = 0, stat_max = 0, stat_p50 = 0, stat_p95 = 0, stat_p99 = 0\<rparr>)"
proof -
  have a: "filter success (concat clients) = []"
    using assms(3) by (rule filter_none)
  have b: "filter success (filter P (concat clients)) = []" for P
    using assms(3) by (intro filter_none) auto
  show ?thesis
    unfolding analyze_results_eval
    by (simp only: assms(1,2) a b list.map calc_percentiles_empty if_False sum.case)
qed


text \<open>
  C6, amended. The aggregation raises its \<open>RuntimeError\<close> (no results to analyze)
  exactly when the merged result list is empty. For a non-empty list and a duration that
  is not zero it produces a record, provided no sample of successful latencies (all
  operations, reads, writes) consists of a single value, or the interpreter is 3.13 or
  later. When every operation failed, the record has \<open>failed_operations =
  total_operations\<close>, every latency field is 0, and the error set holds exactly the
  non-empty error texts of the results: it is non-empty only if some failed result carries
  a non-empty text.
\<close>

theorem aggregation_outcomes:
  "((\<exists>m. analyze_results v clients d = Inl (RuntimeError m)) \<longleftrightarrow> concat clients = [])
   \<and> (concat clients \<noteq> [] \<and> d \<noteq> 0
        \<and> (v = From_3_13 \<or>
            (length (filter success (concat clients)) \<noteq> 1
             \<and> length (filter success (filter (\<lambda>r. operation r = ''read'') (concat clients))) \<noteq> 1
             \<and> length (filter success (filter (\<lambda>r. operation r = ''write'') (concat clients))) \<noteq> 1))
      \<longrightarrow> (\<exists>r. analyze_results v clients d = Inr r))
   \<and> (concat clients \<noteq> [] \<and> d \<noteq> 0 \<and> (\<forall>x\<in>set (concat clients). \<not> success x)
      \<longrightarrow> (\<exists>r. analyze_results v clients d = Inr r
             \<and> failed_operations r = total_operations r
             \<and> avg_latency_ms r = 0 \<and> min_latency_ms r = 0 \<and> max_latency_ms r = 0
             \<and> p50_latency_ms r = 0 \<and> p95_latency_ms r = 0 \<and> p99_latency_ms r = 0
             \<and> read_latency_stats r =
                 \<lparr>stat_avg = 0, stat_min = 0, stat_max = 0, stat_p50 = 0, stat_p95 = 0, stat_p99 = 0\<rparr>
             \<and> write_latency_stats r =
                 \<lparr>stat_avg = 0, stat_min = 0, stat_max = 0, stat_p50 = 0, stat_p95 = 0, stat_p99 = 0\<rparr>
             \<and> errors r = {error x | x. x \<in> set (concat clients) \<and> error x \<noteq> []}))"
proof (intro conjI impI)
  show "(\<exists>m. analyze_results v clients d = Inl (RuntimeError m)) \<longleftrightarrow> concat clients = []"
    by (rule analyze_results_runtime_error)
next
  assume "concat clients \<noteq> [] \<and> d \<noteq> 0
        \<and> (v = From_3_13 \<or>
            (length (filter success (concat clients)) \<noteq> 1
             \<and> length (filter success (filter (\<lambda>r. operation r = ''read'') (concat clients))) \<noteq> 1
             \<and> length (filter success (filter (\<lambda>r. operation r = ''write'') (concat clients))) \<noteq> 1))"
  then show "\<exists>r. analyze_results v clients d = Inr r"
    using analyze_results_returns [of clients d v] by blast
next
  assume a: "concat clients \<noteq> [] \<and> d \<noteq> 0 \<and> (\<forall>x\<in>set (concat clients). \<not> success x)"
  then have f: "filter success (concat clients) = []"
    by (intro filter_none) blast
  have e: "{error x | x. x \<in> set (concat clients) \<and> error x \<noteq> []}
         = set (map error (filter (\<lambda>r. \<not> success r \<and> error r \<noteq> []) (concat clients)))"
    using a by auto
  show "\<exists>r. analyze_results v clients d = Inr r
             \<and> failed_operations r = total_operations r
             \<and> avg_latency_ms r = 0 \<and> min_latency_ms r = 0 \<and> max_latency_ms r = 0
             \<and> p50_latency_ms r = 0 \<and> p95_latency_ms r = 0 \<and> p99_latency_ms r = 0
             \<and> read_latency_stats r =
                 \<lparr>stat_avg = 0, stat_min = 0, stat_max = 0, stat_p50 = 0, stat_p95 = 0, stat_p99 = 0\<rparr>
             \<and> write_latency_stats r =
                 \<lparr>stat_avg = 0, stat_min = 0, stat_max = 0, stat_p50 = 0, stat_p95 = 0, stat_p99 = 0\<rparr>
             \<and> errors r = {error x | x. x \<in> set (concat clients) \<and> error x \<noteq> []}"
    unfolding e using a analyze_results_all_failed [of clients d v]
    by (simp add: record_of_def f del: set_map set_filter set_concat)
qed

lemma zero_duration_never_returns: "analyze_results v clients 0 \<noteq> Inr r"
  unfolding analyze_results_eval by (simp split: sum.splits)

text \<open>
  For a duration that is not zero the throughputs are the counts over the duration, as
  floating-point quotients.
\<close>

lemma throughput_is_count_over_duration:
  assumes "analyze_results v clients d = Inr r"
  shows "d \<noteq> 0"
    and "throughput_ops_per_sec r = binary64 (real_of_int (successful_operations r) / d)"
    and "read_throughput r = binary64 (real_of_int (successful_reads r) / d)"
    and "write_throughput r = binary64 (real_of_int (successful_writes r) / d)"
  using assms unfolding analyze_results_eval
  by (auto simp: record_of_def split: if_splits sum.splits)

text \<open>
  C2. With an actual duration of 0 the aggregation does not report a throughput of 0: the
  divisions by \<open>actual_duration\<close> are unguarded and raise \<open>ZeroDivisionError\<close>, here
  on two successful reads.
\<close>

theorem zero_duration_raises:
  "analyze_results v
     [[\<lparr>operation = ''read'', success = True, latency_ms = 1, timestamp = 0,
        endpoint = ''http://localhost:2379'', error = ''''\<rparr>,
       \<lparr>operation = ''read'', success = True, latency_ms = 3, timestamp = 1,
        endpoint = ''http://localhost:2380'', error = ''''\<rparr>]] 0
   = Inl ZeroDivisionError"
  unfolding analyze_results_eval
  by (simp add: calc_percentiles_many calc_percentiles_empty)

theorem counts_consistent_witness:
  "\<exists>r. analyze_results Before_3_13
     [[\<lparr>operation = ''read'', success = True, latency_ms = 1, timestamp = 0,
        endpoint = ''http://localhost:2379'', error = ''''\<rparr>,
       \<lparr>operation = ''read'', success = True, latency_ms = 3, timestamp = 1,
        endpoint = ''http://localhost:2380'', error = ''''\<rparr>],
      [\<lparr>operation = ''write'', success = False, latency_ms = 7, timestamp = 1,
        endpoint = ''http://localhost:2379'', error = ''timeout''\<rparr>]] 2 = Inr r
     \<and> successful_operations r + failed_operations r = total_operations r
     \<and> sum_list (map snd (endpoint_distribution r)) = total_operations r
     \<and> total_operations r = 3"
proof -
  let ?W = "[[\<lparr>operation = ''read'', success = True, latency_ms = 1, timestamp = 0,
        endpoint = ''http://localhost:2379'', error = ''''\<rparr>,
       \<lparr>operation = ''read'', success = True, latency_ms = 3, timestamp = 1,
        endpoint = ''http://localhost:2380'', error = ''''\<rparr>],
      [\<lparr>operation = ''write'', success = False, latency_ms = (7::real), timestamp = (1::real),
        endpoint = ''http://localhost:2379'', error = ''timeout''\<rparr>]]"
  obtain r where r: "analyze_results Before_3_13 ?W 2 = Inr r"
    using analyze_results_returns [of ?W 2 Before_3_13] by auto
  have t: "total_operations r = 3"
    using r by (rule analyze_results_InrD) (simp add: record_of_def)
  show ?thesis using counts_consistent [OF r] r t by blast
qed

theorem aggregation_outcomes_witness:
  "\<exists>r. analyze_results Before_3_13
     [[\<lparr>operation = ''read'', success = False, latency_ms = 0, timestamp = 0,
        endpoint = ''http://localhost:2379'', error = ''No client available for endpoint''\<rparr>]] 30
       = Inr r
     \<and> failed_operations r = total_operations r
     \<and> p50_latency_ms r = 0 \<and> p95_latency_ms r = 0 \<and> p99_latency_ms r = 0
     \<and> errors r = {''No client available for endpoint''}"
  using aggregation_outcomes [of Before_3_13
     "[[\<lparr>operation = ''read'', success = False, latency_ms = 0, timestamp = 0,
        endpoint = ''http://localhost:2379'', error = ''No client available for endpoint''\<rparr>]]" 30]
  by auto

text \<open>
  C6, as stated, fails: a single failed write whose error text is empty (\<open>str(e)\<close> of an
  exception raised without arguments) is aggregated into a record whose error set is empty.
\<close>

theorem empty_error_set_counterexample:
  "map_sum id total_operations (analyze_results Before_3_13
     [[\<lparr>operation = ''write'', success = False, latency_ms = 12, timestamp = 0,
        endpoint = ''http://localhost:2379'', error = ''''\<rparr>]] 30) = Inr 1
   \<and> map_sum id failed_operations (analyze_results Before_3_13
     [[\<lparr>operation = ''write'', success = False, latency_ms = 12, timestamp = 0,
        endpoint = ''http://localhost:2379'', error = ''''\<rparr>]] 30) = Inr 1
   \<and> map_sum id errors (analyze_results Before_3_13
     [[\<lparr>operation = ''write'', success = False, latency_ms = 12, timestamp = 0,
        endpoint = ''http://localhost:2379'', error = ''''\<rparr>]] 30) = Inr {}"
  unfolding analyze_results_eval
  by (simp add: calc_percentiles_empty record_of_def)

subsection \<open>What the percentiles are\<close>

lemma cut_point_clamped:
  assumes "2 \<le> length srt" and "i = 95 \<or> i = 99"
  shows "cut_point srt 100 i =
           (let n = length srt;
                j = min (n - 1) (i * (n + 1) div 100);
                d = int (i * (n + 1)) - int (100 * j)
            in binary64 (binary64 (binary64 (srt ! (j - 1) * real_of_int (100 - d))
                                    + binary64 (srt ! j * real_of_int d)) / 100))"
proof -
  have "95 * 3 \<le> i * (length srt + 1)"
    using assms by (intro mult_le_mono) auto
  then have "1 \<le> i * (length srt + 1) div 100"
    by (simp add: less_eq_div_iff_mult_less_eq)
  then have ci: "cut_index (length srt) 100 i = min (length srt - 1) (i * (length srt + 1) div 100)"
    unfolding cut_index_def Let_def by auto
  show ?thesis
    unfolding cut_point_def Let_def ci by (simp add: mult.commute)
qed

lemma nearest_rank_half_odd:
  assumes "odd (length data)"
  shows "nearest_rank data (1 / 2) = sort data ! (length data div 2)"
proof -
  obtain k where k: "length data = 2 * k + 1" using assms by (elim oddE)
  have "\<lceil>1 / 2 * real (2 * k + 1)\<rceil> = int k + 1"
    by (simp add: ceiling_eq_iff)
  then show ?thesis unfolding nearest_rank_def k by (simp add: nat_add_distrib)
qed

text \<open>
  C1, amended. For every sample of \<open>n \<ge> 2\<close> successful latencies, each zero or between
  \<open>2^-1000\<close> and \<open>2^1000\<close>, the aggregation reports as p50 the median of the sorted
  sample: its middle value when \<open>n\<close> is odd, which is the nearest-rank value, and the
  floating-point mean of the two middle values when \<open>n\<close> is even. As p95 and p99 it
  reports the cut points 95 and 99 of the 100-quantiles: with
  \<open>j = min (n - 1) (i * (n + 1) div 100)\<close> and \<open>d = i * (n + 1) - 100 * j\<close> the
  floating-point value of \<open>(sorted[j - 1] * (100 - d) + sorted[j] * d) / 100\<close>, every
  operation rounded to binary64. That is an interpolation between two neighbouring
  sorted values, not one of the sample values picked by rank.
\<close>

theorem percentiles_interpolated:
  assumes "2 \<le> length data"
    and "\<forall>x\<in>set data. x = 0 \<or> (1 / 2 ^ 1000 \<le> x \<and> x \<le> 2 ^ 1000)"
  shows "\<exists>s. calc_percentiles v data = Inr s
    \<and> stat_p50 s =
        (if odd (length data) then sort data ! (length data div 2)
         else binary64 (binary64 (sort data ! (length data div 2 - 1)
                                   + sort data ! (length data div 2)) / 2))
    \<and> (odd (length data) \<longrightarrow> stat_p50 s = nearest_rank data (1 / 2))
    \<and> stat_p95 s =
        (let n = length data;
             j = min (n - 1) (95 * (n + 1) div 100);
             d = int (95 * (n + 1)) - int (100 * j)
         in binary64 (binary64 (binary64 (sort data ! (j - 1) * real_of_int (100 - d))
                                 + binary64 (sort data ! j * real_of_int d)) / 100))
    \<and> stat_p99 s =
        (let n = length data;
             j = min (n - 1) (99 * (n + 1) div 100);
             d = int (99 * (n + 1)) - int (100 * j)
         in binary64 (binary64 (binary64 (sort data ! (j - 1) * real_of_int (100 - d))
                                 + binary64 (sort data ! j * real_of_int d)) / 100))"
proof -
  have l: "2 \<le> length (sort data)" using assms(1) by simp
  have q95: "cut_point (sort data) 100 95 =
        (let n = length data;
             j = min (n - 1) (95 * (n + 1) div 100);
             d = int (95 * (n + 1)) - int (100 * j)
         in binary64 (binary64 (binary64 (sort data ! (j - 1) * real_of_int (100 - d))
                                 + binary64 (sort data ! j * real_of_int d)) / 100))"
    using cut_point_clamped [OF l, of 95] by simp
  have q99: "cut_point (sort data) 100 99 =
        (let n = length data;
             j = min (n - 1) (99 * (n + 1) div 100);
             d = int (99 * (n + 1)) - int (100 * j)
         in binary64 (binary64 (binary64 (sort data ! (j - 1) * real_of_int (100 - d))
                                 + binary64 (sort data ! j * real_of_int d)) / 100))"
    using cut_point_clamped [OF l, of 99] by simp
  let ?S = "\<lparr>stat_avg = binary64 (sum_list data / real (length data)),
             stat_min = py_min data, stat_max = py_max data,
             stat_p50 =
               (if odd (length data) then sort data ! (length data div 2)
                else binary64 (binary64 (sort data ! (length data div 2 - 1)
                                          + sort data ! (length data div 2)) / 2)),
             stat_p95 = cut_point (sort data) 100 95,
             stat_p99 = cut_point (sort data) 100 99\<rparr>"
  show ?thesis
  proof (intro exI conjI)
    show "calc_percentiles v data = Inr ?S" by (rule calc_percentiles_many [OF assms(1)])
    show "stat_p50 ?S =
        (if odd (length data) then sort data ! (length data div 2)
         else binary64 (binary64 (sort data ! (length data div 2 - 1)
                                   + sort data ! (length data div 2)) / 2))"
      by simp
    show "odd (length data) \<longrightarrow> stat_p50 ?S = nearest_rank data (1 / 2)"
      using nearest_rank_half_odd [of data] by simp
    show "stat_p95 ?S =
        (let n = length data;
             j = min (n - 1) (95 * (n + 1) div 100);
             d = int (95 * (n + 1)) - int (100 * j)
         in binary64 (binary64 (binary64 (sort data ! (j - 1) * real_of_int (100 - d))
                                 + binary64 (sort data ! j * real_of_int d)) / 100))"
      using q95 by simp
    show "stat_p99 ?S =
        (let n = length data;
             j = min (n - 1) (99 * (n + 1) div 100);
             d = int (99 * (n + 1)) - int (100 * j)
         in binary64 (binary64 (binary64 (sort data ! (j - 1) * real_of_int (100 - d))
                                 + binary64 (sort data ! j * real_of_int d)) / 100))"
      using q99 by simp
  qed
qed

theorem percentiles_interpolated_witness:
  "\<exists>s. calc_percentiles Before_3_13 [3, 1, 2] = Inr s
     \<and> stat_p50 s = 2 \<and> stat_p50 s = nearest_rank [3, 1, 2] (1 / 2)
     \<and> stat_p95 s = 4278419646001971 / 2 ^ 50
     \<and> stat_p99 s = 4458563631096791 / 2 ^ 50"
  using percentiles_interpolated [of "[3, 1, 2]" Before_3_13]
  by (simp add: Let_def binary64_numeral binary64_19_5 binary64_99_25)

subsection \<open>The executor\<close>

text \<open>
  C9. On a configuration with at least one endpoint, \<open>perform_operation\<close> always returns
  an \<open>OperationResult\<close> and never raises: a store call that raises is returned as a
  result with \<open>success = False\<close> that carries the text of the exception, a missing
  client as a failed result too, and only a store call that returns gives a success.
\<close>

theorem perform_operation_never_raises:
  assumes "endpoints config \<noteq> []"
  shows "\<exists>r. perform_operation config etcd_clients env = Inr r
       \<and> endpoint r \<in> set (endpoints config)
       \<and> (case etcd_clients (endpoint r) of
            None \<Rightarrow> \<not> success r \<and> error r = ''No client available for endpoint''
          | Some client \<Rightarrow>
             (case store_call config env (rnd_random env < write_ratio config) client of
                Returned \<Rightarrow> success r
              | Raised msg \<Rightarrow> \<not> success r \<and> error r = msg))"
proof -
  define ep where "ep = endpoints config ! (rnd_choice env mod length (endpoints config))"
  have mem: "ep \<in> set (endpoints config)"
    unfolding ep_def using assms by (intro nth_mem) simp
  show ?thesis
  proof (cases "etcd_clients ep")
    case None
    then show ?thesis using assms mem
      by (simp add: perform_operation_def Let_def ep_def [symmetric])
  next
    case (Some client)
    then show ?thesis using assms mem
      by (cases "store_call config env (rnd_random env < write_ratio config) client")
         (simp_all add: perform_operation_def Let_def ep_def [symmetric])
  qed
qed

theorem perform_operation_never_raises_witness:
  "perform_operation
     \<lparr>endpoints = [''http://localhost:2379''], num_clients = 1, duration = 30,
      write_ratio = 3 / 10, key_size = 64, value_size = 1024, key_prefix = ''benchmark'',
      warmup_time = 5, report_interval = 5\<rparr>
     [''http://localhost:2379'' \<mapsto> (0::nat)]
     \<lparr>rnd_random = 1 / 2, rnd_choice = 0,
      rnd_key_chars = (\<lambda>k. replicate k CHR ''a''),
      rnd_value_chars = (\<lambda>k. replicate k CHR ''b''),
      perf_start = 1, perf_end = 3 / 2, wall_clock = 100,
      store_put = (\<lambda>c k v. Returned),
      store_get = (\<lambda>c k. Raised ''etcd connection failed'')\<rparr>
   = Inr \<lparr>operation = ''read'', success = False, latency_ms = 500, timestamp = 100,
          endpoint = ''http://localhost:2379'', error = ''etcd connection failed''\<rparr>"
  using perform_operation_never_raises [of
     "\<lparr>endpoints = [''http://localhost:2379''], num_clients = 1, duration = 30,
      write_ratio = 3 / 10, key_size = 64, value_size = 1024, key_prefix = ''benchmark'',
      warmup_time = 5, report_interval = 5\<rparr>"
     "[''http://localhost:2379'' \<mapsto> (0::nat)]"
     "\<lparr>rnd_random = 1 / 2, rnd_choice = 0,
      rnd_key_chars = (\<lambda>k. replicate k CHR ''a''),
      rnd_value_chars = (\<lambda>k. replicate k CHR ''b''),
      perf_start = 1, perf_end = 3 / 2, wall_clock = 100,
      store_put = (\<lambda>c k v. Returned),
      store_get = (\<lambda>c k. Raised ''etcd connection failed'')\<rparr>"]
  by (simp add: perform_operation_def store_call_def Let_def binary64_half binary64_numeral)

subsection \<open>The scalability fit\<close>

lemma normalize_Cons: "normalize (t0 # ts) = Inr (map (\<lambda>t. np_divide t t0) (t0 # ts))"
  by (simp add: normalize_def)

lemma fit_usl_model_empty: "fit_usl_model curve_fit nodes [] = Inl IndexError"
  by (simp add: fit_usl_model_def normalize_def)

text \<open>
  C3, amended. \<open>fit_usl_model\<close> does not look at the number of node counts. On a
  non-empty throughput list it returns the tuple of \<open>None\<close> exactly when the call of
  \<open>curve_fit\<close> raises, and whenever \<open>curve_fit\<close> returns it returns the fitted
  coefficients, however many distinct node counts the dataset has.
\<close>

theorem fit_has_no_node_count_check:
  assumes "throughput \<noteq> []"
  shows "(fit_usl_model curve_fit nodes throughput = Inr None
          \<longleftrightarrow> curve_fit ((0, 0), (1, 1)) nodes (map (\<lambda>t. np_divide t (hd throughput)) throughput)
                = Fit_raised)
     \<and> (\<forall>popt pcov.
           curve_fit ((0, 0), (1, 1)) nodes (map (\<lambda>t. np_divide t (hd throughput)) throughput)
             = Fit_returned popt pcov
           \<longrightarrow> (\<exists>f. fit_usl_model curve_fit nodes throughput = Inr (Some f)
                    \<and> alpha f = fst popt \<and> beta f = snd popt
                    \<and> normalized_throughput f = map (\<lambda>t. np_divide t (hd throughput)) throughput))"
proof -
  obtain t0 ts where Cons: "throughput = t0 # ts"
    using assms by (cases throughput) auto
  show ?thesis
  proof (cases "curve_fit ((0, 0), (1, 1)) nodes (map (\<lambda>t. np_divide t t0) (t0 # ts))")
    case Fit_raised
    then show ?thesis using Cons by (simp add: fit_usl_model_def normalize_def)
  next
    case (Fit_returned popt pcov)
    then show ?thesis using Cons by (simp add: fit_usl_model_def normalize_def Let_def)
  qed
qed

theorem fit_has_no_node_count_check_witness:
  "\<exists>f. fit_usl_model (\<lambda>bnds nodes ys. Fit_returned (1 / 10, 0) (Finite 0, Finite 0))
          [1, 3] [100, 250] = Inr (Some f)
     \<and> alpha f = 1 / 10 \<and> beta f = 0
     \<and> normalized_throughput f = [Finite 1, Finite (5 / 2)]"
  using fit_has_no_node_count_check [of "[100, 250]"
      "\<lambda>bnds nodes ys. Fit_returned (1 / 10, 0) (Finite 0, Finite 0)" "[1, 3]"]
  by (simp add: np_divide_def)

text \<open>
  C3, as stated, fails: on the two node counts 1 and 2 with throughputs 100 and 180,
  where \<open>curve_fit\<close> returns a zero-residual pair inside the bounds and a covariance it
  could not estimate (filled with \<open>inf\<close>, with a warning), the fit returns coefficients.
\<close>

theorem two_node_counts_fit_counterexample:
  "length (remdups [1, 2 :: int]) < 3
   \<and> fit_usl_model (\<lambda>bnds nodes ys. Fit_returned (1 / 9, 0) (NonFinite, NonFinite))
        [1, 2] [100, 180]
     = Inr (Some \<lparr>alpha = 1 / 9, beta = 0, alpha_err = NonFinite, beta_err = NonFinite,
                  r_squared = Finite 1,
                  normalized_throughput = [Finite 1, Finite (9 / 5)]\<rparr>)"
  by (simp add: fit_usl_model_def normalize_def Let_def np_divide_def usl_function_def
      np_sum_def np_mean_def)

text \<open>
  C8. Whenever the fit succeeds with an optimizer that keeps to the bounds it is given,
  the returned coefficients satisfy \<open>0 \<le> alpha \<le> 1\<close> and \<open>0 \<le> beta \<le> 1\<close>, whatever
  the samples: \<open>fit_usl_model\<close> passes the bounds \<open>([0, 0], [1, 1])\<close> and returns
  \<open>popt\<close> unchanged.
\<close>

theorem fitted_coefficients_within_bounds:
  assumes "honours_bounds curve_fit"
    and "fit_usl_model curve_fit nodes throughput = Inr (Some f)"
  shows "0 \<le> alpha f \<and> alpha f \<le> 1 \<and> 0 \<le> beta f \<and> beta f \<le> 1"
proof (cases throughput)
  case Nil
  then show ?thesis using assms(2) by (simp add: fit_usl_model_def normalize_def)
next
  case (Cons t0 ts)
  show ?thesis
  proof (cases "curve_fit ((0, 0), (1, 1)) nodes (map (\<lambda>t. np_divide t t0) (t0 # ts))")
    case Fit_raised
    then show ?thesis using assms(2) Cons by (simp add: fit_usl_model_def normalize_def)
  next
    case (Fit_returned popt pcov)
    then have "within_bounds ((0, 0), (1, 1)) popt"
      using assms(1) unfolding honours_bounds_def by blast
    moreover have "alpha f = fst popt" "beta f = snd popt"
      using assms(2) Cons Fit_returned
      by (auto simp: fit_usl_model_def normalize_def Let_def)
    ultimately show ?thesis by (simp add: within_bounds_def)
  qed
qed

theorem fitted_coefficients_within_bounds_witness:
  "honours_bounds
     (\<lambda>bounds nodes ys.
        if fst (fst bounds) \<le> fst (snd bounds) \<and> snd (fst bounds) \<le> snd (snd bounds)
        then Fit_returned ((fst (fst bounds) + fst (snd bounds)) / 2, snd (fst bounds))
               (Finite 0, Finite 0)
        else Fit_raised)
   \<and> (\<exists>f. fit_usl_model
          (\<lambda>bounds nodes ys.
             if fst (fst bounds) \<le> fst (snd bounds) \<and> snd (fst bounds) \<le> snd (snd bounds)
             then Fit_returned ((fst (fst bounds) + fst (snd bounds)) / 2, snd (fst bounds))
                    (Finite 0, Finite 0)
             else Fit_raised)
          [1, 3, 5] [100, 310, 290] = Inr (Some f)
        \<and> alpha f = 1 / 2 \<and> beta f = 0
        \<and> 0 \<le> alpha f \<and> alpha f \<le> 1 \<and> 0 \<le> beta f \<and> beta f \<le> 1)"
proof -
  let ?cf = "\<lambda>(bounds :: (real \<times> real) \<times> (real \<times> real)) (nodes :: int list) (ys :: np_float list).
        if fst (fst bounds) \<le> fst (snd bounds) \<and> snd (fst bounds) \<le> snd (snd bounds)
        then Fit_returned ((fst (fst bounds) + fst (snd bounds)) / 2, snd (fst bounds))
               (Finite 0, Finite 0)
        else Fit_raised"
  have h: "honours_bounds ?cf"
    by (auto simp: honours_bounds_def within_bounds_def split: if_splits)
  obtain f where f: "fit_usl_model ?cf [1, 3, 5] [100, 310, 290] = Inr (Some f)"
    and ab: "alpha f = 1 / 2" "beta f = 0"
    by (simp add: fit_usl_model_def normalize_def Let_def)
  from fitted_coefficients_within_bounds [OF h f] h f ab show ?thesis by blast
qed

text \<open>
  When the dataset holds node count 1 as its smallest key, with a sample that is not
  zero, the first sample is the single-node one.
\<close>

lemma hd_sort_least:
  fixes xs :: "int list"
  assumes "a \<in> set xs" and "\<forall>x\<in>set xs. a \<le> x"
  shows "\<exists>ys. sort xs = a # ys"
proof (cases "sort xs")
  case Nil
  then have "set (sort xs) = {}" by simp
  then show ?thesis using assms(1) by simp
next
  case (Cons y ys)
  have s: "sorted (y # ys)" using Cons by (metis sorted_sort)
  have "a \<in> set (y # ys)" using Cons assms(1) by (metis set_sort)
  then have "y \<le> a" using s by auto
  moreover have "y \<in> set xs" using Cons by (metis list.set_intros(1) set_sort)
  ultimately have "y = a" using assms(2) by force
  then show ?thesis using Cons by simp
qed

lemma single_node_baseline_when_present:
  assumes "distinct (map fst results)" and "(1, t1) \<in> set results"
    and "\<forall>n\<in>set (map fst results). 1 \<le> n" and "t1 \<noteq> 0"
  shows "normalize (usl_throughput results) =
           Inr (map (\<lambda>t. Finite (t / t1)) (usl_throughput results))"
proof -
  have "1 \<in> set (map fst results)" using assms(2) by force
  then obtain ys where ys: "sort (map fst results) = 1 # ys"
    using hd_sort_least [of 1 "map fst results"] assms(3) by blast
  have m: "map_of results 1 = Some t1"
    using assms(1,2) by simp
  have "usl_throughput results = t1 # List.map_filter (map_of results) ys"
    by (simp add: usl_throughput_def usl_nodes_def ys m)
  then show ?thesis using assms(4) by (simp add: normalize_def np_divide_def)
qed

text \<open>
  C4. The fit divides every sample by the first one, the sample of the smallest node
  count of the dataset. On the node counts 3, 5 and 7 that is the 3-node sample: the
  normalized values are 1, 1.4 and 1.6, and no single-node baseline is involved.
\<close>

theorem baseline_is_first_sample:
  "usl_nodes [(5, 350), (3, 250), (7, 400)] = [3, 5, 7]
   \<and> usl_throughput [(5, 350), (3, 250), (7, 400)] = [250, 350, 400]
   \<and> normalize (usl_throughput [(5, 350), (3, 250), (7, 400)])
       = Inr [Finite 1, Finite (7 / 5), Finite (8 / 5)]"
  by (simp add: usl_nodes_def usl_throughput_def normalize_def np_divide_def
      List.map_filter_simps)

lemma normalize_single_node_baseline:
  assumes "throughput = t1 # ts" and "t1 \<noteq> 0"
  shows "normalize throughput = Inr (map (\<lambda>t. Finite (t / t1)) throughput)"
    and "map_sum id hd (normalize throughput) = Inr (Finite 1)"
  using assms by (simp_all add: normalize_def np_divide_def)

end
